theory Spec2Isabelle
  imports Main "HOL-Library.Word"
begin

unbundle bit_operations_syntax

section \<open>The bivalve logging facade (src/bivalve.go)\<close>

text \<open>
  The package keeps three globals (\<open>valvelog\<close>, \<open>level\<close>, \<open>terminalOutput\<close>), sets
  them in \<open>Configure\<close>, and every emitter reads them. The model passes the globals as a
  record. What an emitter does to the outside world is the list of \<open>Write\<close> calls it issues
  on the logger's writer, in order; a call on a closed or nil file returns an error and
  delivers nothing.

  The Go standard library (\<open>log\<close>, \<open>fmt\<close>, \<open>os\<close>, \<open>time\<close>) is not part of the
  repository. \<open>log.Logger.Output\<close> and the verbs \<open>%s\<close>, \<open>%d\<close>, \<open>%f\<close> of
  \<open>fmt.Sprintf\<close> are written out as the library documents them; the clock, the call
  stack, the file system, the rendering of floating-point numbers and of times, and
  \<open>Sprintf\<close> outside these verbs are parameters.

  The repository holds a second, earlier variant of the file that hands every call to
  the glog library; the properties below are about \<open>bivalve.go\<close>, the self-contained
  one.
\<close>

subsection \<open>Configuration and constants\<close>

record LogConfig =
  Output :: string
  Level :: string
  Filename :: string
  DisplayMinimal :: bool
  TerminalOutput :: bool

text \<open>The level is an \<open>int8\<close>, compared as a signed value.\<close>

definition debugLevel :: "8 word" where "debugLevel = 4"
definition infoLevel :: "8 word" where "infoLevel = 2"
definition errorLevel :: "8 word" where "errorLevel = 1"

definition LF :: char where "LF = CHR 0x0A"
definition ESC :: char where "ESC = CHR 0x1B"
definition DQUOTE :: char where "DQUOTE = CHR 0x22"

definition ApacheFormatPattern :: string where
  "ApacheFormatPattern = ''%s - - [%s] '' @ [DQUOTE] @ ''%s %d %d'' @ [DQUOTE] @ '' %f'' @ [LF]"

definition ErrorColor :: string where
  "ErrorColor = [ESC] @ ''[1;31m%s'' @ [ESC] @ ''[0m''"

definition DebugColor :: string where
  "DebugColor = [ESC] @ ''[0;36m%s'' @ [ESC] @ ''[0m''"

subsection \<open>Decimal rendering\<close>

fun string_of_nat :: "nat \<Rightarrow> string" where
  "string_of_nat n =
     (if n < 10 then [''0123456789'' ! n]
      else string_of_nat (n div 10) @ [''0123456789'' ! (n mod 10)])"

declare string_of_nat.simps [simp del]

definition string_of_int :: "int \<Rightarrow> string" where
  "string_of_int i = (if i < 0 then CHR ''-'' # string_of_nat (nat (- i)) else string_of_nat (nat i))"

subsection \<open>The operands and the formatter\<close>

text \<open>
  The operands this package passes to its formatted emitters: strings, \<open>int\<close> and
  \<open>int64\<close> (64 bits), \<open>float64\<close> (kept abstract, type \<open>'f\<close>) and the configuration
  pointer. \<open>sprintf_verbs\<close> is \<open>fmt.Sprintf\<close> on formats made of literal text, \<open>%%\<close>,
  and the verbs \<open>%s\<close> on a string, \<open>%d\<close> on an integer, \<open>%f\<close> on a float, with exactly
  one operand per verb; it answers \<open>None\<close> on any other format, where Go inserts
  \<open>%!\<close> diagnostics or uses other verbs.
\<close>

datatype 'f arg =
    AString string
  | AInt "64 word"
  | AInt64 "64 word"
  | AFloat64 'f
  | AConf LogConfig

definition fmt_verb :: "('f \<Rightarrow> string) \<Rightarrow> char \<Rightarrow> 'f arg \<Rightarrow> string option" where
  "fmt_verb ff v a =
     (case a of
        AString s \<Rightarrow> if v = CHR ''s'' then Some s else None
      | AInt i \<Rightarrow> if v = CHR ''d'' then Some (string_of_int (sint i)) else None
      | AInt64 i \<Rightarrow> if v = CHR ''d'' then Some (string_of_int (sint i)) else None
      | AFloat64 x \<Rightarrow> if v = CHR ''f'' then Some (ff x) else None
      | AConf c \<Rightarrow> None)"

fun sprintf_verbs :: "('f \<Rightarrow> string) \<Rightarrow> string \<Rightarrow> 'f arg list \<Rightarrow> string option" where
  "sprintf_verbs ff [] as = (if as = [] then Some [] else None)"
| "sprintf_verbs ff [c] as =
     (if c = CHR ''%'' then None else if as = [] then Some [c] else None)"
| "sprintf_verbs ff (c # v # rest) as =
     (if c \<noteq> CHR ''%'' then map_option ((#) c) (sprintf_verbs ff (v # rest) as)
      else if v = CHR ''%'' then map_option ((#) CHR ''%'') (sprintf_verbs ff rest as)
      else (case as of
              [] \<Rightarrow> None
            | a # as' \<Rightarrow>
               (case fmt_verb ff v a of
                  None \<Rightarrow> None
                | Some t \<Rightarrow> map_option ((@) t) (sprintf_verbs ff rest as'))))"

text \<open>The services of the runtime and the standard library that the package calls.\<close>

record 'f env =
  fmt_float :: "'f \<Rightarrow> string"
    \<comment> \<open>the text \<open>%f\<close> gives for a \<open>float64\<close>\<close>
  fmt_beyond :: "string \<Rightarrow> 'f arg list \<Rightarrow> string"
    \<comment> \<open>\<open>fmt.Sprintf\<close> on the formats \<open>sprintf_verbs\<close> does not cover\<close>
  os_OpenFile :: "string \<Rightarrow> string option"
    \<comment> \<open>\<open>os.OpenFile(name, O_APPEND|O_CREATE|O_WRONLY, 0644)\<close>: \<open>None\<close> when the file
        opens, \<open>Some e\<close> when it fails with the error text \<open>e\<close>\<close>
  time_Format :: "int \<Rightarrow> string \<Rightarrow> string"
    \<comment> \<open>\<open>t.Format(layout)\<close>, the time as nanoseconds since the zero \<open>time.Time\<close>\<close>
  dur_Seconds :: "int \<Rightarrow> 'f"
    \<comment> \<open>\<open>Duration.Seconds()\<close>, the duration in nanoseconds\<close>

definition Sprintf :: "'f env \<Rightarrow> string \<Rightarrow> 'f arg list \<Rightarrow> string" where
  "Sprintf e s as =
     (case sprintf_verbs (fmt_float e) s as of Some t \<Rightarrow> t | None \<Rightarrow> fmt_beyond e s as)"

subsection \<open>The logger of package log\<close>

text \<open>
  A writer is one of the two standard streams or the \<open>*os.File\<close> that \<open>Configure\<close>
  opened, which is open, closed, or nil when the open failed.
\<close>

datatype osfile = FileOpen string | FileClosed string | FileNil

datatype writer = Stderr | Stdout | FileW osfile

fun file_Close :: "osfile \<Rightarrow> osfile" where
  "file_Close (FileOpen name) = FileClosed name"
| "file_Close (FileClosed name) = FileClosed name"
| "file_Close FileNil = FileNil"

fun accepts :: "writer \<Rightarrow> bool" where
  "accepts Stderr = True"
| "accepts Stdout = True"
| "accepts (FileW (FileOpen name)) = True"
| "accepts (FileW (FileClosed name)) = False"
| "accepts (FileW FileNil) = False"

type_synonym write_call = "writer \<times> string"

definition delivered :: "write_call list \<Rightarrow> write_call list" where
  "delivered ws = filter (\<lambda>w. accepts (fst w)) ws"

definition Ldate :: int where "Ldate = 1"
definition Ltime :: int where "Ltime = 2"
definition Lmicroseconds :: int where "Lmicroseconds = 4"
definition Llongfile :: int where "Llongfile = 8"
definition Lshortfile :: int where "Lshortfile = 16"
definition LUTC :: int where "LUTC = 32"
definition Lmsgprefix :: int where "Lmsgprefix = 64"
definition LstdFlags :: int where "LstdFlags = Ldate OR Ltime"

record Logger =
  lg_out :: writer
  lg_prefix :: string
  lg_flag :: int

text \<open>
  What one call of an emitter reads from its surroundings: the clock, rendered as the
  header prints it (the argument says whether in UTC), and the source position of the
  frame \<open>calldepth\<close> levels up, if the runtime can resolve it.
\<close>

record callsite =
  now_date :: "bool \<Rightarrow> string"
  now_time :: "bool \<Rightarrow> string"
  now_micros :: string
  caller :: "(string \<times> nat) option"

definition short_name :: "string \<Rightarrow> string" where
  "short_name file =
     (case file of
        [] \<Rightarrow> []
      | c # cs \<Rightarrow>
          if CHR ''/'' \<in> set cs then rev (takeWhile (\<lambda>x. x \<noteq> CHR ''/'') (rev cs))
          else file)"

definition formatHeader :: "Logger \<Rightarrow> callsite \<Rightarrow> string" where
  "formatHeader l c =
     (if lg_flag l AND Lmsgprefix = 0 then lg_prefix l else []) @
     (if lg_flag l AND (Ldate OR Ltime OR Lmicroseconds) \<noteq> 0 then
        (if lg_flag l AND Ldate \<noteq> 0 then now_date c (lg_flag l AND LUTC \<noteq> 0) @ '' '' else []) @
        (if lg_flag l AND (Ltime OR Lmicroseconds) \<noteq> 0 then
           now_time c (lg_flag l AND LUTC \<noteq> 0) @
           (if lg_flag l AND Lmicroseconds \<noteq> 0 then now_micros c else []) @ '' ''
         else [])
      else []) @
     (if lg_flag l AND (Lshortfile OR Llongfile) \<noteq> 0 then
        (case (case caller c of None \<Rightarrow> (''???'', 0) | Some fl \<Rightarrow> fl) of
           (file, line) \<Rightarrow>
             (if lg_flag l AND Lshortfile \<noteq> 0 then short_name file else file) @
             '':'' @ string_of_nat line @ '': '')
      else []) @
     (if lg_flag l AND Lmsgprefix \<noteq> 0 then lg_prefix l else [])"

definition Logger_Output :: "Logger \<Rightarrow> callsite \<Rightarrow> string \<Rightarrow> write_call list" where
  "Logger_Output l c s =
     [(lg_out l, formatHeader l c @ s @ (if s = [] \<or> last s \<noteq> LF then [LF] else []))]"

text \<open>\<open>log.Println\<close> writes through the standard logger: standard error, date and time.\<close>

definition log_Println :: "callsite \<Rightarrow> string \<Rightarrow> write_call list" where
  "log_Println c s =
     Logger_Output \<lparr>lg_out = Stderr, lg_prefix = [], lg_flag = LstdFlags\<rparr> c (s @ [LF])"

subsection \<open>The globals and the emitters\<close>

record globals =
  valvelog :: Logger
  level :: "8 word"
  terminalOutput :: bool

definition Info :: "globals \<Rightarrow> callsite \<Rightarrow> string \<Rightarrow> write_call list" where
  "Info g c s =
     (if word_sle infoLevel (level g) then Logger_Output (valvelog g) c s else [])"

definition Infof :: "'f env \<Rightarrow> globals \<Rightarrow> callsite \<Rightarrow> string \<Rightarrow> 'f arg list \<Rightarrow> write_call list" where
  "Infof e g c s as =
     (if word_sle infoLevel (level g) then Logger_Output (valvelog g) c (Sprintf e s as) else [])"

definition Debug :: "'f env \<Rightarrow> globals \<Rightarrow> callsite \<Rightarrow> string \<Rightarrow> write_call list" where
  "Debug e g c s =
     (if word_sle debugLevel (level g) then
        Logger_Output (valvelog g) c
          (if terminalOutput g then Sprintf e DebugColor [AString s] else s)
      else [])"

definition Debugf :: "'f env \<Rightarrow> globals \<Rightarrow> callsite \<Rightarrow> string \<Rightarrow> 'f arg list \<Rightarrow> write_call list" where
  "Debugf e g c s as =
     (if word_sle debugLevel (level g) then
        (let msg = Sprintf e s as in
         Logger_Output (valvelog g) c
           (if terminalOutput g then Sprintf e DebugColor [AString msg] else msg))
      else [])"

definition Error :: "'f env \<Rightarrow> globals \<Rightarrow> callsite \<Rightarrow> string \<Rightarrow> write_call list" where
  "Error e g c s =
     Logger_Output (valvelog g) c
       (if terminalOutput g then Sprintf e ErrorColor [AString s] else s)"

definition Errorf :: "'f env \<Rightarrow> globals \<Rightarrow> callsite \<Rightarrow> string \<Rightarrow> 'f arg list \<Rightarrow> write_call list" where
  "Errorf e g c s as =
     (let msg = Sprintf e s as in
      Logger_Output (valvelog g) c
        (if terminalOutput g then Sprintf e ErrorColor [AString msg] else msg))"

subsection \<open>Configure\<close>

text \<open>
  \<open>Configure\<close> returns the new globals and the writes it issued itself: the line of
  \<open>log.Println(err)\<close> when the file does not open, then the line of its closing
  \<open>Debugf\<close>. In the \<open>"file"\<close> case \<open>writer = f\<close> is assigned whether or not the open
  failed, and \<open>defer f.Close()\<close> runs when \<open>Configure\<close> returns, after the
  \<open>Debugf\<close>; the logger holds the same \<open>*os.File\<close>, so its writer is closed (or nil)
  from then on. \<open>Close\<close> and \<open>Write\<close> on a nil \<open>*os.File\<close> return \<open>os.ErrInvalid\<close>;
  they do not panic. The two call sites are those of \<open>log.Println\<close> and of
  \<open>Debugf\<close>. The configuration pointer is taken to be non-nil.
\<close>

definition Configure ::
  "'f env \<Rightarrow> callsite \<Rightarrow> callsite \<Rightarrow> LogConfig \<Rightarrow> globals \<Rightarrow> globals \<times> write_call list" where
  "Configure e c_err c_dbg conf g =
     (let (writer, errline) =
            (if Output conf = ''file'' then
               (case os_OpenFile e (Filename conf) of
                  Some err \<Rightarrow> (FileW FileNil, log_Println c_err err)
                | None \<Rightarrow> (FileW (FileOpen (Filename conf)), []))
             else if Output conf = ''stdout'' then (Stdout, [])
             else (Stderr, []));
          g1 = g\<lparr>level :=
                   (if Level conf = ''debug'' then debugLevel
                    else if Level conf = ''error'' then errorLevel
                    else infoLevel)\<rparr>;
          g2 = g1\<lparr>terminalOutput := (if TerminalOutput conf then True else False)\<rparr>;
          logflags =
            (if DisplayMinimal conf then 0
             else Ldate OR Ltime OR Lmicroseconds OR LUTC OR Lshortfile);
          g3 = g2\<lparr>valvelog := \<lparr>lg_out = writer, lg_prefix = [], lg_flag = logflags\<rparr>\<rparr>;
          dbgline = Debugf e g3 c_dbg ''Log Config set to : %+v'' [AConf conf];
          g4 = (case writer of
                  FileW f \<Rightarrow> g3\<lparr>valvelog := (valvelog g3)\<lparr>lg_out := FileW (file_Close f)\<rparr>\<rparr>
                | _ \<Rightarrow> g3)
      in (g4, errline @ dbgline))"

subsection \<open>The response interceptor and the access-log middleware\<close>

text \<open>
  The wrapped \<open>http.ResponseWriter\<close> is an interface: its two intercepted methods are
  parameters, acting on a state \<open>'w\<close>. \<open>status\<close> and \<open>length\<close> are Go \<open>int\<close>s (64 bits);
  a body is a byte string.
\<close>

record 'w ResponseWriter =
  rw_WriteHeader :: "'w \<Rightarrow> 64 word \<Rightarrow> 'w"
  rw_Write :: "'w \<Rightarrow> string \<Rightarrow> (64 word \<times> bool) \<times> 'w"
    \<comment> \<open>the count \<open>n\<close>, whether \<open>err\<close> is non-nil, and the writer afterwards\<close>

record 'w statusWriter =
  inner :: 'w
  status :: "64 word"
  lengthW :: "64 word"

definition sw_WriteHeader ::
  "'w ResponseWriter \<Rightarrow> 'w statusWriter \<Rightarrow> 64 word \<Rightarrow> 'w statusWriter" where
  "sw_WriteHeader R w st =
     (let w1 = w\<lparr>status := st\<rparr>
      in w1\<lparr>inner := rw_WriteHeader R (inner w1) st\<rparr>)"

definition sw_Write ::
  "'w ResponseWriter \<Rightarrow> 'w statusWriter \<Rightarrow> string \<Rightarrow> 'w statusWriter \<times> (64 word \<times> bool)" where
  "sw_Write R w b =
     (let w1 = (if status w = 0 then w\<lparr>status := 200\<rparr> else w)
      in (case rw_Write R (inner w1) b of
            ((n, err), i) \<Rightarrow> (w1\<lparr>inner := i, lengthW := lengthW w1 + n\<rparr>, (n, err))))"

text \<open>
  A run of the wrapped handler that returns is the sequence of calls it made on the
  interceptor. (A panic in the handler or in the wrapped writer unwinds through
  \<open>ServeHTTP\<close>, which then logs nothing: such a request does not complete.)
\<close>

datatype hcall = CallWriteHeader "64 word" | CallWrite string

fun run_calls :: "'w ResponseWriter \<Rightarrow> 'w statusWriter \<Rightarrow> hcall list \<Rightarrow> 'w statusWriter" where
  "run_calls R w [] = w"
| "run_calls R w (CallWriteHeader st # cs) = run_calls R (sw_WriteHeader R w st) cs"
| "run_calls R w (CallWrite b # cs) = run_calls R (fst (sw_Write R w b)) cs"

record Request =
  RemoteAddr :: string
  Method :: string
  RequestURI :: string
  Proto :: string

record ApacheLogRecord =
  rec_ip :: string
  rec_time :: int
  rec_method :: string
  rec_uri :: string
  rec_protocol :: string
  rec_status :: "64 word"
  rec_responseBytes :: "64 word"
  rec_elapsedTime :: int

text \<open>
  Times are nanoseconds since the zero \<open>time.Time\<close>, so \<open>time.Time{}\<close> is 0.
  \<open>Time.Sub\<close> saturates at the ends of the \<open>int64\<close> range of a \<open>Duration\<close>.
\<close>

definition zero_Time :: int where "zero_Time = 0"

definition time_Sub :: "int \<Rightarrow> int \<Rightarrow> int" where
  "time_Sub t u = max (- (2 ^ 63)) (min (2 ^ 63 - 1) (t - u))"

definition timeLayout :: string where
  "timeLayout = ''02/Jan/2006 03:04:05''"

definition accessRecord ::
  "'w ResponseWriter \<Rightarrow> (Request \<Rightarrow> hcall list) \<Rightarrow> 'w \<Rightarrow> Request \<Rightarrow> int \<Rightarrow> int \<Rightarrow> ApacheLogRecord" where
  "accessRecord R h w r start endingTime =
     (let sw = run_calls R \<lparr>inner = w, status = 0, lengthW = 0\<rparr> (h r)
      in \<lparr>rec_ip = RemoteAddr r,
          rec_time = zero_Time,
          rec_method = Method r,
          rec_uri = RequestURI r,
          rec_protocol = Proto r,
          rec_status = status sw,
          rec_responseBytes = lengthW sw,
          rec_elapsedTime = time_Sub endingTime start\<rparr>)"

definition accessArgs :: "'f env \<Rightarrow> ApacheLogRecord \<Rightarrow> 'f arg list" where
  "accessArgs e rc =
     (let timeFormatted = time_Format e (rec_time rc) timeLayout;
          requestLine = Sprintf e ''%s %s %s''
             [AString (rec_method rc), AString (rec_uri rc), AString (rec_protocol rc)]
      in [AString (rec_ip rc), AString timeFormatted, AString requestLine,
          AInt (rec_status rc), AInt64 (rec_responseBytes rc),
          AFloat64 (dur_Seconds e (rec_elapsedTime rc))])"

text \<open>
  \<open>ServeHTTP\<close> reads the clock before and after the handler (\<open>start\<close>, \<open>endingTime\<close>)
  and returns the writes of its one \<open>Infof\<close> call.
\<close>

definition ServeHTTP ::
  "'f env \<Rightarrow> globals \<Rightarrow> callsite \<Rightarrow> 'w ResponseWriter \<Rightarrow> (Request \<Rightarrow> hcall list) \<Rightarrow>
     'w \<Rightarrow> Request \<Rightarrow> int \<Rightarrow> int \<Rightarrow> write_call list" where
  "ServeHTTP e g c R h w r start endingTime =
     Infof e g c ApacheFormatPattern (accessArgs e (accessRecord R h w r start endingTime))"

subsection \<open>Notions used to state the properties\<close>

text \<open>
  The access-log line as the specification words it: the fixed pattern
  \<open>%s - - [%s] "%s %d %d" %f\n\<close> with the six substitutions already rendered as text.
\<close>

definition spec_access_line ::
  "string \<Rightarrow> string \<Rightarrow> string \<Rightarrow> string \<Rightarrow> string \<Rightarrow> string \<Rightarrow> string" where
  "spec_access_line addr stamp request code bytes secs =
     addr @ '' - - ['' @ stamp @ ''] '' @ [DQUOTE] @ request @ '' '' @ code @ '' '' @ bytes @
     [DQUOTE] @ '' '' @ secs @ [LF]"

text \<open>A text with the newline that \<open>Logger.Output\<close> appends when it is missing.\<close>

definition terminated :: "string \<Rightarrow> string" where
  "terminated s = (if s = [] \<or> last s \<noteq> LF then s @ [LF] else s)"

text \<open>A message between an ANSI colour sequence and the reset sequence.\<close>

definition colored :: "string \<Rightarrow> string \<Rightarrow> string" where
  "colored code s = [ESC] @ code @ s @ [ESC] @ ''[0m''"

fun isWrite :: "hcall \<Rightarrow> bool" where
  "isWrite (CallWrite b) = True"
| "isWrite (CallWriteHeader st) = False"

text \<open>The six emitters as one call, to speak of every later emission at once.\<close>

datatype 'f emission =
    CallInfo string
  | CallInfof string "'f arg list"
  | CallDebug string
  | CallDebugf string "'f arg list"
  | CallError string
  | CallErrorf string "'f arg list"

fun emit :: "'f env \<Rightarrow> globals \<Rightarrow> callsite \<Rightarrow> 'f emission \<Rightarrow> write_call list" where
  "emit e g c (CallInfo s) = Info g c s"
| "emit e g c (CallInfof s as) = Infof e g c s as"
| "emit e g c (CallDebug s) = Debug e g c s"
| "emit e g c (CallDebugf s as) = Debugf e g c s as"
| "emit e g c (CallError s) = Error e g c s"
| "emit e g c (CallErrorf s as) = Errorf e g c s as"

text \<open>
  The text an emission hands to the logger: the message, formatted for the \<open>f\<close>
  variants, and for debug and error messages wrapped in a colour when \<open>t\<close> (the
  terminal-output setting) is on.
\<close>

fun shown :: "bool \<Rightarrow> 'f env \<Rightarrow> 'f emission \<Rightarrow> string" where
  "shown t e (CallInfo s) = s"
| "shown t e (CallInfof s as) = Sprintf e s as"
| "shown t e (CallDebug s) = (if t then colored ''[0;36m'' s else s)"
| "shown t e (CallDebugf s as) = (if t then colored ''[0;36m'' (Sprintf e s as) else Sprintf e s as)"
| "shown t e (CallError s) = (if t then colored ''[1;31m'' s else s)"
| "shown t e (CallErrorf s as) = (if t then colored ''[1;31m'' (Sprintf e s as) else Sprintf e s as)"

subsection \<open>Concrete surroundings for the examples\<close>

text \<open>
  A file system in which \<open>/no/such/dir/app.log\<close> cannot be opened, a \<open>float64\<close> stood
  for by the nanoseconds it came from, and fixed renderings for the rest.
\<close>

definition demoEnv :: "int env" where
  "demoEnv =
     \<lparr>fmt_float = (\<lambda>x. ''0.000000''),
      fmt_beyond = (\<lambda>s as. s),
      os_OpenFile = (\<lambda>name. if name = ''/no/such/dir/app.log''
                             then Some ''open /no/such/dir/app.log: no such file or directory''
                             else None),
      time_Format = (\<lambda>t layout. ''01/Jan/0001 12:00:00''),
      dur_Seconds = (\<lambda>d. d)\<rparr>"

definition demoSite :: callsite where
  "demoSite =
     \<lparr>now_date = (\<lambda>utc. ''2024/01/02''),
      now_time = (\<lambda>utc. ''03:04:05''),
      now_micros = ''.000006'',
      caller = Some (''/src/app/main.go'', 42)\<rparr>"

text \<open>A wrapped writer that accepts every status and every byte; its state counts the bytes.\<close>

definition demoWriter :: "nat ResponseWriter" where
  "demoWriter =
     \<lparr>rw_WriteHeader = (\<lambda>w st. w),
      rw_Write = (\<lambda>w b. ((word_of_nat (length b), False), w + length b))\<rparr>"

definition demoRequest :: Request where
  "demoRequest =
     \<lparr>RemoteAddr = ''10.0.0.1:5555'', Method = ''GET'', RequestURI = ''/foo'',
      Proto = ''HTTP/1.1''\<rparr>"

definition demoGlobals :: globals where
  "demoGlobals =
     \<lparr>valvelog = \<lparr>lg_out = Stdout, lg_prefix = [], lg_flag = 0\<rparr>,
      level = infoLevel, terminalOutput = False\<rparr>"

definition helloHandler :: "Request \<Rightarrow> hcall list" where
  "helloHandler r = [CallWrite ''hello'']"

definition notFoundHandler :: "Request \<Rightarrow> hcall list" where
  "notFoundHandler r = [CallWriteHeader 404, CallWrite ''gone'']"

definition zeroStatusHandler :: "Request \<Rightarrow> hcall list" where
  "zeroStatusHandler r = [CallWriteHeader 0, CallWrite ''x'']"

definition twoStatusHandler :: "Request \<Rightarrow> hcall list" where
  "twoStatusHandler r = [CallWriteHeader 404, CallWriteHeader 500]"

definition silentHandler :: "Request \<Rightarrow> hcall list" where
  "silentHandler r = []"

definition emptyWriteHandler :: "Request \<Rightarrow> hcall list" where
  "emptyWriteHandler r = [CallWrite []]"

definition stderrGlobals :: globals where
  "stderrGlobals =
     \<lparr>valvelog = \<lparr>lg_out = Stderr, lg_prefix = [], lg_flag = 0\<rparr>,
      level = infoLevel, terminalOutput = False\<rparr>"

definition badFileConf :: LogConfig where
  "badFileConf =
     \<lparr>Output = ''file'', Level = ''info'', Filename = ''/no/such/dir/app.log'',
      DisplayMinimal = True, TerminalOutput = False\<rparr>"

definition oddConf :: LogConfig where
  "oddConf =
     \<lparr>Output = ''both'', Level = ''verbose'', Filename = ''bivalve.log'',
      DisplayMinimal = False, TerminalOutput = False\<rparr>"

definition minimalColorConf :: LogConfig where
  "minimalColorConf =
     \<lparr>Output = ''stdout'', Level = ''error'', Filename = ''bivalve.log'',
      DisplayMinimal = True, TerminalOutput = True\<rparr>"

definition minimalConf :: LogConfig where
  "minimalConf =
     \<lparr>Output = ''stdout'', Level = ''error'', Filename = ''bivalve.log'',
      DisplayMinimal = True, TerminalOutput = False\<rparr>"

section \<open>Properties\<close>

subsection \<open>Auxiliary facts\<close>

lemma sle_info: "word_sle infoLevel l \<longleftrightarrow> 2 \<le> sint l"
  by (simp add: infoLevel_def word_sle_eq)


lemma Logger_Output_terminated:
  "Logger_Output l c s = [(lg_out l, formatHeader l c @ terminated s)]"
  by (simp add: Logger_Output_def terminated_def)

lemma Sprintf_pattern:
  "Sprintf e ApacheFormatPattern
     [AString a, AString b, AString c, AInt d, AInt64 n, AFloat64 x] =
   spec_access_line a b c (string_of_int (sint d)) (string_of_int (sint n)) (fmt_float e x)"
  by (simp add: Sprintf_def ApacheFormatPattern_def fmt_verb_def spec_access_line_def
      DQUOTE_def LF_def)

lemma Sprintf_request:
  "Sprintf e ''%s %s %s'' [AString a, AString b, AString c] = a @ '' '' @ b @ '' '' @ c"
  by (simp add: Sprintf_def fmt_verb_def)

lemma Sprintf_DebugColor:
  "Sprintf e DebugColor [AString s] = colored ''[0;36m'' s"
  by (simp add: Sprintf_def DebugColor_def fmt_verb_def colored_def ESC_def)

lemma Sprintf_ErrorColor:
  "Sprintf e ErrorColor [AString s] = colored ''[1;31m'' s"
  by (simp add: Sprintf_def ErrorColor_def fmt_verb_def colored_def ESC_def)

lemma terminated_access_line:
  "terminated (spec_access_line a b c d n x) = spec_access_line a b c d n x"
  by (simp add: terminated_def spec_access_line_def)

lemma access_line:
  "Sprintf e ApacheFormatPattern (accessArgs e rc) =
   spec_access_line (rec_ip rc) (time_Format e (rec_time rc) timeLayout)
     (rec_method rc @ '' '' @ rec_uri rc @ '' '' @ rec_protocol rc)
     (string_of_int (sint (rec_status rc))) (string_of_int (sint (rec_responseBytes rc)))
     (fmt_float e (dur_Seconds e (rec_elapsedTime rc)))"
  by (simp add: accessArgs_def Let_def Sprintf_pattern Sprintf_request)

lemma status_sw_Write:
  "status (fst (sw_Write R w b)) = (if status w = 0 then 200 else status w)"
  by (simp add: sw_Write_def Let_def split: prod.splits)

lemma status_sw_WriteHeader: "status (sw_WriteHeader R w st) = st"
  by (simp add: sw_WriteHeader_def Let_def)

lemma run_calls_append: "run_calls R w (xs @ ys) = run_calls R (run_calls R w xs) ys"
  by (induction R w xs rule: run_calls.induct) simp_all

text \<open>Body writes leave a status that is set as it is, and turn an unset one into 200.\<close>

lemma run_writes_set:
  "list_all isWrite cs \<Longrightarrow> status w \<noteq> 0 \<Longrightarrow> status (run_calls R w cs) = status w"
proof (induction cs arbitrary: w)
  case Nil
  then show ?case by simp
next
  case (Cons x cs)
  then show ?case by (cases x) (simp_all add: status_sw_Write)
qed

lemma run_writes_unset:
  "list_all isWrite cs \<Longrightarrow> cs \<noteq> [] \<Longrightarrow> status w = 0 \<Longrightarrow> status (run_calls R w cs) = 200"
proof (cases cs)
  case Nil
  assume "cs \<noteq> []"
  with Nil show ?thesis by simp
next
  case (Cons x xs)
  assume a: "list_all isWrite cs" and z: "status w = 0"
  from a Cons obtain b where x: "x = CallWrite b" by (cases x) simp_all
  have "status (fst (sw_Write R w b)) = 200" using z by (simp add: status_sw_Write)
  moreover have "list_all isWrite xs" using a Cons by simp
  ultimately have "status (run_calls R (fst (sw_Write R w b)) xs) = 200"
    using run_writes_set [of xs "fst (sw_Write R w b)" R] by simp
  then show ?thesis using Cons x by simp
qed

lemma ServeHTTP_line:
  "ServeHTTP e g c R h w r start endingTime =
     (if 2 \<le> sint (level g) then
        [(lg_out (valvelog g),
          formatHeader (valvelog g) c @
          Sprintf e ApacheFormatPattern (accessArgs e (accessRecord R h w r start endingTime)))]
      else [])"
  by (simp add: ServeHTTP_def Infof_def sle_info Logger_Output_terminated access_line
      terminated_access_line)

lemma string_of_int_0: "string_of_int 0 = ''0''"
  by (simp add: string_of_int_def string_of_nat.simps)

lemma Configure_level:
  "level (fst (Configure e c1 c2 conf g)) =
     (if Level conf = ''debug'' then debugLevel
      else if Level conf = ''error'' then errorLevel else infoLevel)"
  by (simp add: Configure_def Let_def split: prod.splits option.splits writer.splits)

lemma Configure_terminalOutput:
  "terminalOutput (fst (Configure e c1 c2 conf g)) = TerminalOutput conf"
  by (simp add: Configure_def Let_def split: prod.splits option.splits writer.splits)

lemma Configure_flags:
  "lg_flag (valvelog (fst (Configure e c1 c2 conf g))) =
     (if DisplayMinimal conf then 0 else Ldate OR Ltime OR Lmicroseconds OR LUTC OR Lshortfile)"
  by (simp add: Configure_def Let_def split: prod.splits option.splits writer.splits)

lemma Configure_prefix: "lg_prefix (valvelog (fst (Configure e c1 c2 conf g))) = []"
  by (simp add: Configure_def Let_def split: prod.splits option.splits writer.splits)

text \<open>The globals after \<open>Configure\<close> do not depend on the globals before it.\<close>

lemma Configure_overwrites:
  "fst (Configure e c1 c2 conf g) = fst (Configure e c3 c4 conf g')"
  by (simp add: Configure_def Let_def split: prod.splits option.splits writer.splits)

lemma formatHeader_minimal:
  "lg_flag l = 0 \<Longrightarrow> lg_prefix l = [] \<Longrightarrow> formatHeader l c = []"
  by (simp add: formatHeader_def)

lemma log_Println_line:
  "log_Println c s = [(Stderr, now_date c False @ '' '' @ now_time c False @ '' '' @ s @ [LF])]"
  by (simp add: log_Println_def Logger_Output_def formatHeader_def LstdFlags_def Ldate_def
      Ltime_def Lmicroseconds_def LUTC_def Lshortfile_def Llongfile_def Lmsgprefix_def)

lemma emit_texts:
  "(lw, text) \<in> set (emit e g c call) \<Longrightarrow>
   text = formatHeader (valvelog g) c @ terminated (shown (terminalOutput g) e call)"
  by (cases call)
    (auto simp add: Info_def Infof_def Debug_def Debugf_def Error_def Errorf_def Let_def
      Logger_Output_terminated Sprintf_DebugColor Sprintf_ErrorColor split: if_splits)

text \<open>Every write of an emitter goes to the logger's writer; a dead writer delivers none.\<close>

lemma emit_not_delivered:
  "\<not> accepts (lg_out (valvelog g)) \<Longrightarrow> delivered (emit e g c call) = []"
  by (cases call)
    (simp_all add: Info_def Infof_def Debug_def Debugf_def Error_def Errorf_def Let_def
      Logger_Output_def delivered_def)

subsection \<open>The level gate\<close>


subsection \<open>The response interceptor\<close>

text \<open>
  Claim C2, as amended. The record's status is 200 when the handler made at least one
  \<open>Write\<close> call and never called \<open>WriteHeader\<close>; it is the status the handler set when
  the handler called \<open>WriteHeader\<close> first, with a status other than 0, and then only
  wrote. The status 0 is the interceptor's mark for "not set yet", so a \<open>Write\<close> after
  \<open>WriteHeader(0)\<close> reports 200.
\<close>

theorem interceptor_status:
  "(list_all isWrite (h r) \<and> h r \<noteq> [] \<longrightarrow>
      rec_status (accessRecord R h w r start endingTime) = 200) \<and>
   (\<forall>st ws. h r = CallWriteHeader st # ws \<and> list_all isWrite ws \<and> st \<noteq> 0 \<longrightarrow>
      rec_status (accessRecord R h w r start endingTime) = st)"
proof (intro conjI impI allI)
  assume "list_all isWrite (h r) \<and> h r \<noteq> []"
  then show "rec_status (accessRecord R h w r start endingTime) = 200"
    by (simp add: accessRecord_def Let_def run_writes_unset)
next
  fix st ws
  assume a: "h r = CallWriteHeader st # ws \<and> list_all isWrite ws \<and> st \<noteq> 0"
  then have "status (run_calls R (sw_WriteHeader R \<lparr>inner = w, status = 0, lengthW = 0\<rparr> st) ws) = st"
    using run_writes_set [of ws "sw_WriteHeader R \<lparr>inner = w, status = 0, lengthW = 0\<rparr> st" R]
    by (simp add: status_sw_WriteHeader)
  with a show "rec_status (accessRecord R h w r start endingTime) = st"
    by (simp add: accessRecord_def Let_def)
qed

text \<open>A handler that writes \<open>hello\<close>, and one that sets 404 and then writes.\<close>

theorem interceptor_status_witness:
  "list_all isWrite (helloHandler demoRequest) \<and> helloHandler demoRequest \<noteq> [] \<and>
   rec_status (accessRecord demoWriter helloHandler 0 demoRequest 5 9) = 200 \<and>
   notFoundHandler demoRequest = CallWriteHeader 404 # [CallWrite ''gone''] \<and>
   list_all isWrite [CallWrite ''gone''] \<and> (404 :: 64 word) \<noteq> 0 \<and>
   rec_status (accessRecord demoWriter notFoundHandler 0 demoRequest 5 9) = 404"
  using interceptor_status [of helloHandler demoRequest demoWriter 0 5 9]
    interceptor_status [of notFoundHandler demoRequest demoWriter 0 5 9]
  by (simp add: helloHandler_def notFoundHandler_def)

text \<open>
  The claim as written fails when the status set is 0: after \<open>WriteHeader(0)\<close> and a
  write, the record says 200, not the status that was set.
\<close>

theorem interceptor_status_counterexample:
  "zeroStatusHandler demoRequest = [CallWriteHeader 0, CallWrite ''x''] \<and>
   rec_status (accessRecord demoWriter zeroStatusHandler 0 demoRequest 5 9) = 200 \<and>
   rec_status (accessRecord demoWriter zeroStatusHandler 0 demoRequest 5 9) \<noteq> 0"
  by (simp add: zeroStatusHandler_def accessRecord_def Let_def sw_WriteHeader_def sw_Write_def
      demoWriter_def)

text \<open>
  Claim C3, as amended. \<open>WriteHeader\<close> overwrites the status on every call, so the record
  carries the last status the handler set, not the first: when only writes follow the
  last \<open>WriteHeader(st)\<close>, the record's status is \<open>st\<close>, provided \<open>st\<close> is not 0 or
  nothing at all follows.
\<close>

theorem last_status_wins:
  assumes "h r = pre @ CallWriteHeader st # ws"
    and "list_all isWrite ws"
    and "st \<noteq> 0 \<or> ws = []"
  shows "rec_status (accessRecord R h w r start endingTime) = st"
proof -
  let ?w0 = "\<lparr>inner = w, status = 0, lengthW = 0\<rparr>"
  let ?w1 = "sw_WriteHeader R (run_calls R ?w0 pre) st"
  have run: "run_calls R ?w0 (h r) = run_calls R ?w1 ws"
    using assms(1) by (simp add: run_calls_append)
  have "status (run_calls R ?w1 ws) = st"
  proof (cases "ws = []")
    case True
    then show ?thesis by (simp add: status_sw_WriteHeader)
  next
    case False
    with assms(3) have "status ?w1 \<noteq> 0" by (simp add: status_sw_WriteHeader)
    from run_writes_set [OF assms(2) this] show ?thesis
      by (simp add: status_sw_WriteHeader)
  qed
  with run show ?thesis by (simp add: accessRecord_def Let_def)
qed

theorem last_status_wins_witness:
  "twoStatusHandler demoRequest = [CallWriteHeader 404] @ CallWriteHeader 500 # [] \<and>
   list_all isWrite [] \<and> (500 :: 64 word) \<noteq> 0 \<and>
   rec_status (accessRecord demoWriter twoStatusHandler 0 demoRequest 5 9) = 500"
proof -
  have a: "twoStatusHandler demoRequest = [CallWriteHeader 404] @ CallWriteHeader 500 # []"
    by (simp add: twoStatusHandler_def)
  have b: "list_all isWrite []" by simp
  have c: "(500 :: 64 word) \<noteq> 0 \<or> ([] :: hcall list) = []" by simp
  from last_status_wins [of twoStatusHandler demoRequest "[CallWriteHeader 404]" 500 "[]"
      demoWriter 0 5 9, OF a b c] a
  show ?thesis by simp
qed

text \<open>
  The claim as written fails: a handler that sets 404 and then 500 is recorded with 500,
  not with the first status 404.
\<close>

theorem first_status_counterexample:
  "twoStatusHandler demoRequest = [CallWriteHeader 404, CallWriteHeader 500] \<and>
   rec_status (accessRecord demoWriter twoStatusHandler 0 demoRequest 5 9) = 500 \<and>
   rec_status (accessRecord demoWriter twoStatusHandler 0 demoRequest 5 9) \<noteq> 404"
  by (simp add: twoStatusHandler_def accessRecord_def Let_def sw_WriteHeader_def demoWriter_def)

text \<open>
  Claim C10, as amended. When the handler makes no call on the interceptor (no
  \<open>Write\<close> call, not even of an empty body, and no \<open>WriteHeader\<close> call), the status
  stays 0, not 200, the byte count is 0, and the access-log line that \<open>Infof\<close> writes
  shows \<open>0 0\<close> in the two places.
\<close>

theorem silent_handler_reports_zero:
  assumes "h r = []"
  shows "rec_status (accessRecord R h w r start endingTime) = 0 \<and>
         rec_responseBytes (accessRecord R h w r start endingTime) = 0 \<and>
         ServeHTTP e g c R h w r start endingTime =
           (if 2 \<le> sint (level g) then
              [(lg_out (valvelog g),
                formatHeader (valvelog g) c @
                spec_access_line (RemoteAddr r) (time_Format e zero_Time timeLayout)
                  (Method r @ '' '' @ RequestURI r @ '' '' @ Proto r) ''0'' ''0''
                  (fmt_float e (dur_Seconds e (time_Sub endingTime start))))]
            else [])"
  using assms
  by (simp add: ServeHTTP_line access_line accessRecord_def Let_def string_of_int_0)

theorem silent_handler_reports_zero_witness:
  "silentHandler demoRequest = [] \<and>
   rec_status (accessRecord demoWriter silentHandler 0 demoRequest 5 9) = 0 \<and>
   rec_responseBytes (accessRecord demoWriter silentHandler 0 demoRequest 5 9) = 0 \<and>
   ServeHTTP demoEnv demoGlobals demoSite demoWriter silentHandler 0 demoRequest 5 9 =
     [(Stdout, ''10.0.0.1:5555 - - [01/Jan/0001 12:00:00] '' @ [DQUOTE] @
         ''GET /foo HTTP/1.1 0 0'' @ [DQUOTE] @ '' 0.000000'' @ [LF])]"
proof -
  have a: "silentHandler demoRequest = []" by (simp add: silentHandler_def)
  from silent_handler_reports_zero [of silentHandler demoRequest demoWriter 0 5 9 demoEnv
      demoGlobals demoSite, OF a] a
  show ?thesis
    by (simp add: demoGlobals_def demoEnv_def demoRequest_def infoLevel_def formatHeader_def
        spec_access_line_def)
qed

text \<open>
  The claim as written fails for a handler that writes no body byte but does call
  \<open>Write\<close>: \<open>Write\<close> sets 200 whatever the length of the body, so after one
  \<open>Write\<close> of an empty body the record has status 200 with byte count 0.
\<close>

theorem silent_handler_counterexample:
  "emptyWriteHandler demoRequest = [CallWrite []] \<and>
   rec_responseBytes (accessRecord demoWriter emptyWriteHandler 0 demoRequest 5 9) = 0 \<and>
   rec_status (accessRecord demoWriter emptyWriteHandler 0 demoRequest 5 9) = 200 \<and>
   rec_status (accessRecord demoWriter emptyWriteHandler 0 demoRequest 5 9) \<noteq> 0"
  by (simp add: emptyWriteHandler_def accessRecord_def Let_def sw_Write_def demoWriter_def)

subsection \<open>The access-log line\<close>

text \<open>
  Claim C5. \<open>ServeHTTP\<close> makes one call of \<open>Infof\<close>, with the fixed pattern and the six
  operands of the record. Below the info threshold (2) nothing is written; from it on,
  one write is issued on the logger's writer, and its text is the logger's header followed
  by the pattern with the client address, the formatted timestamp, \<open>METHOD URI PROTOCOL\<close>,
  the status, the byte count and the elapsed seconds substituted, ending in a newline.
\<close>

theorem access_line_through_info:
  "ServeHTTP e g c R h w r start endingTime =
     Infof e g c ApacheFormatPattern (accessArgs e (accessRecord R h w r start endingTime)) \<and>
   ServeHTTP e g c R h w r start endingTime =
     (if 2 \<le> sint (level g) then
        [(lg_out (valvelog g),
          formatHeader (valvelog g) c @
          spec_access_line (RemoteAddr r) (time_Format e zero_Time timeLayout)
            (Method r @ '' '' @ RequestURI r @ '' '' @ Proto r)
            (string_of_int (sint (status (run_calls R \<lparr>inner = w, status = 0, lengthW = 0\<rparr> (h r)))))
            (string_of_int (sint (lengthW (run_calls R \<lparr>inner = w, status = 0, lengthW = 0\<rparr> (h r)))))
            (fmt_float e (dur_Seconds e (time_Sub endingTime start))))]
      else [])"
proof
  show "ServeHTTP e g c R h w r start endingTime =
     Infof e g c ApacheFormatPattern (accessArgs e (accessRecord R h w r start endingTime))"
    by (simp add: ServeHTTP_def)
next
  show "ServeHTTP e g c R h w r start endingTime =
     (if 2 \<le> sint (level g) then
        [(lg_out (valvelog g),
          formatHeader (valvelog g) c @
          spec_access_line (RemoteAddr r) (time_Format e zero_Time timeLayout)
            (Method r @ '' '' @ RequestURI r @ '' '' @ Proto r)
            (string_of_int (sint (status (run_calls R \<lparr>inner = w, status = 0, lengthW = 0\<rparr> (h r)))))
            (string_of_int (sint (lengthW (run_calls R \<lparr>inner = w, status = 0, lengthW = 0\<rparr> (h r)))))
            (fmt_float e (dur_Seconds e (time_Sub endingTime start))))]
      else [])"
    by (simp add: ServeHTTP_line access_line accessRecord_def Let_def)
qed

text \<open>
  The scenario of the specification: a handler that writes \<open>hello\<close> and sets no
  status, a \<open>GET\<close> of \<open>/foo\<close>, level info, minimal header.
\<close>

theorem access_line_through_info_witness:
  "ServeHTTP demoEnv demoGlobals demoSite demoWriter helloHandler 0 demoRequest 5 9 =
     [(Stdout, ''10.0.0.1:5555 - - [01/Jan/0001 12:00:00] '' @ [DQUOTE] @
         ''GET /foo HTTP/1.1 200 5'' @ [DQUOTE] @ '' 0.000000'' @ [LF])]"
  using access_line_through_info [of demoEnv demoGlobals demoSite demoWriter helloHandler 0
      demoRequest 5 9, THEN conjunct2]
  by (simp add: demoGlobals_def demoEnv_def demoRequest_def demoWriter_def helloHandler_def
      infoLevel_def formatHeader_def spec_access_line_def sw_Write_def string_of_int_def
      string_of_nat.simps)

text \<open>
  Claim C6. The record's time is the zero \<open>time.Time\<close>, and the operand substituted for
  the timestamp is its formatting: the same text whenever the request started and ended.
\<close>

theorem timestamp_is_zero_value:
  "rec_time (accessRecord R h w r start endingTime) = zero_Time \<and>
   accessArgs e (accessRecord R h w r start endingTime) ! 1 =
     AString (time_Format e zero_Time timeLayout) \<and>
   accessArgs e (accessRecord R h w r start endingTime) ! 1 =
     accessArgs e (accessRecord R h w r start' endingTime') ! 1"
  by (simp add: accessRecord_def accessArgs_def Let_def)

subsection \<open>Configure\<close>

text \<open>
  Claim C4. When the output is \<open>"file"\<close> and the file does not open, \<open>Configure\<close>
  does log the error through the standard logger (its first write, on standard error) and
  does not stop. But the sink does not continue as it was: after the test of \<open>err\<close> the
  code still runs \<open>writer = f\<close>, with \<open>f\<close> nil, so the new logger's writer is the nil
  file, whatever the sink was before, and no later emission of any emitter is delivered
  anywhere. This holds also when the sink before was standard error, the value
  \<open>writer\<close> starts with.
\<close>

theorem failed_open_loses_sink:
  assumes "Output conf = ''file''"
    and "os_OpenFile e (Filename conf) = Some err"
  shows "take 1 (snd (Configure e c1 c2 conf g)) =
           [(Stderr, now_date c1 False @ '' '' @ now_time c1 False @ '' '' @ err @ [LF])] \<and>
         lg_out (valvelog (fst (Configure e c1 c2 conf g))) = FileW FileNil \<and>
         delivered (emit e (fst (Configure e c1 c2 conf g)) c call) = []"
proof -
  have t: "take 1 (snd (Configure e c1 c2 conf g)) =
           [(Stderr, now_date c1 False @ '' '' @ now_time c1 False @ '' '' @ err @ [LF])]"
    using assms by (simp add: Configure_def Let_def log_Println_line)
  have o: "lg_out (valvelog (fst (Configure e c1 c2 conf g))) = FileW FileNil"
    using assms by (simp add: Configure_def Let_def)
  then have "\<not> accepts (lg_out (valvelog (fst (Configure e c1 c2 conf g))))"
    by simp
  then have "delivered (emit e (fst (Configure e c1 c2 conf g)) c call) = []"
    by (rule emit_not_delivered)
  with t o show ?thesis by simp
qed

text \<open>
  With standard error as the sink before: an error message was delivered there; after
  the \<open>Configure\<close> whose file does not open it is delivered nowhere.
\<close>

theorem failed_open_loses_sink_witness:
  "Output badFileConf = ''file'' \<and>
   os_OpenFile demoEnv (Filename badFileConf) =
     Some ''open /no/such/dir/app.log: no such file or directory'' \<and>
   delivered (emit demoEnv stderrGlobals demoSite (CallError ''x'')) =
     [(Stderr, ''x'' @ [LF])] \<and>
   take 1 (snd (Configure demoEnv demoSite demoSite badFileConf stderrGlobals)) =
     [(Stderr, ''2024/01/02 03:04:05 open /no/such/dir/app.log: no such file or directory''
         @ [LF])] \<and>
   lg_out (valvelog (fst (Configure demoEnv demoSite demoSite badFileConf stderrGlobals))) =
     FileW FileNil \<and>
   delivered (emit demoEnv (fst (Configure demoEnv demoSite demoSite badFileConf stderrGlobals))
     demoSite (CallError ''x'')) = []"
proof -
  have a: "Output badFileConf = ''file''" by (simp add: badFileConf_def)
  have b: "os_OpenFile demoEnv (Filename badFileConf) =
     Some ''open /no/such/dir/app.log: no such file or directory''"
    by (simp add: badFileConf_def demoEnv_def)
  have d: "delivered (emit demoEnv stderrGlobals demoSite (CallError ''x'')) =
     [(Stderr, ''x'' @ [LF])]"
    by (simp add: stderrGlobals_def Error_def Logger_Output_def formatHeader_def
        delivered_def LF_def)
  from failed_open_loses_sink [OF a b, of demoSite demoSite stderrGlobals demoSite
      "CallError ''x''"] a b d
  show ?thesis by (simp add: demoSite_def)
qed

text \<open>
  Claim C7. \<open>Configure\<close> returns no error for any configuration: an output other than
  \<open>"file"\<close> and \<open>"stdout"\<close> leaves standard error as the sink, and a level other than
  \<open>"debug"\<close> and \<open>"error"\<close> gives the info threshold.
\<close>

theorem unrecognized_values_fall_back:
  "(Output conf \<noteq> ''file'' \<and> Output conf \<noteq> ''stdout'' \<longrightarrow>
      lg_out (valvelog (fst (Configure e c1 c2 conf g))) = Stderr) \<and>
   (Level conf \<noteq> ''debug'' \<and> Level conf \<noteq> ''error'' \<longrightarrow>
      level (fst (Configure e c1 c2 conf g)) = infoLevel)"
  by (simp add: Configure_def Let_def split: prod.splits option.splits)

theorem unrecognized_values_fall_back_witness:
  "Output oddConf \<noteq> ''file'' \<and> Output oddConf \<noteq> ''stdout'' \<and>
   lg_out (valvelog (fst (Configure demoEnv demoSite demoSite oddConf demoGlobals))) = Stderr \<and>
   Level oddConf \<noteq> ''debug'' \<and> Level oddConf \<noteq> ''error'' \<and>
   level (fst (Configure demoEnv demoSite demoSite oddConf demoGlobals)) = infoLevel"
  using unrecognized_values_fall_back [of oddConf demoEnv demoSite demoSite demoGlobals]
  by (simp add: oddConf_def)

text \<open>
  Claim C8, as amended. After \<open>Configure\<close> with \<open>DisplayMinimal\<close> set, the header of
  every line is empty, and every write of every emitter carries exactly the message
  text, wrapped in the colour sequence for debug and error messages when
  \<open>TerminalOutput\<close> is set, with a newline appended unless the text already ends in one.
\<close>

theorem minimal_lines:
  assumes "DisplayMinimal conf"
    and "(lw, text) \<in> set (emit e (fst (Configure e c1 c2 conf g)) c call)"
  shows "formatHeader (valvelog (fst (Configure e c1 c2 conf g))) c = [] \<and>
         text = terminated (shown (TerminalOutput conf) e call)"
proof -
  have h: "formatHeader (valvelog (fst (Configure e c1 c2 conf g))) c = []"
    using assms(1) by (simp add: formatHeader_minimal Configure_flags Configure_prefix)
  from emit_texts [OF assms(2)] h show ?thesis
    by (simp add: Configure_terminalOutput)
qed

text \<open>The scenario of the specification: standard output, level error, minimal; \<open>Error("z")\<close>.\<close>

theorem minimal_lines_witness:
  "DisplayMinimal minimalConf \<and>
   (Stdout, ''z'' @ [LF]) \<in>
     set (emit demoEnv (fst (Configure demoEnv demoSite demoSite minimalConf demoGlobals))
            demoSite (CallError ''z'')) \<and>
   formatHeader (valvelog (fst (Configure demoEnv demoSite demoSite minimalConf demoGlobals)))
     demoSite = [] \<and>
   ''z'' @ [LF] = terminated (shown (TerminalOutput minimalConf) demoEnv (CallError ''z''))"
proof -
  have a: "DisplayMinimal minimalConf" by (simp add: minimalConf_def)
  have b: "(Stdout, ''z'' @ [LF]) \<in>
     set (emit demoEnv (fst (Configure demoEnv demoSite demoSite minimalConf demoGlobals))
            demoSite (CallError ''z''))"
    by (simp add: Configure_def minimalConf_def Let_def Error_def Logger_Output_def
        formatHeader_def LF_def Debugf_def errorLevel_def debugLevel_def word_sle_eq)
  from minimal_lines [OF a b] a b show ?thesis by simp
qed

text \<open>
  The claim as written fails when \<open>TerminalOutput\<close> is set as well: \<open>Error("z")\<close> writes
  the message between the red and the reset sequence, not the bare \<open>z\<close> and a newline.
\<close>

theorem minimal_lines_counterexample:
  "DisplayMinimal minimalColorConf \<and>
   Error demoEnv (fst (Configure demoEnv demoSite demoSite minimalColorConf demoGlobals))
     demoSite ''z'' = [(Stdout, [ESC] @ ''[1;31mz'' @ [ESC] @ ''[0m'' @ [LF])] \<and>
   Error demoEnv (fst (Configure demoEnv demoSite demoSite minimalColorConf demoGlobals))
     demoSite ''z'' \<noteq> [(Stdout, ''z'' @ [LF])]"
  by (simp add: Configure_def minimalColorConf_def Let_def Error_def Logger_Output_def
      formatHeader_def LF_def ESC_def Debugf_def errorLevel_def debugLevel_def word_sle_eq
      Sprintf_def ErrorColor_def fmt_verb_def)

text \<open>
  Claim C9. Calling \<open>Configure\<close> a second time with the same configuration (the file
  system answering the open as it did the first time) leaves the globals as the first
  call left them; so every later emission, and every later access-log line, issues the
  same writes as after one call.
\<close>

theorem Configure_idempotent:
  "fst (Configure e c3 c4 conf (fst (Configure e c1 c2 conf g))) =
     fst (Configure e c1 c2 conf g) \<and>
   emit e (fst (Configure e c3 c4 conf (fst (Configure e c1 c2 conf g)))) c call =
     emit e (fst (Configure e c1 c2 conf g)) c call \<and>
   ServeHTTP e (fst (Configure e c3 c4 conf (fst (Configure e c1 c2 conf g)))) c R h w r t0 t1 =
     ServeHTTP e (fst (Configure e c1 c2 conf g)) c R h w r t0 t1"
proof -
  have "fst (Configure e c3 c4 conf (fst (Configure e c1 c2 conf g))) =
     fst (Configure e c1 c2 conf g)"
    by (rule Configure_overwrites)
  then show ?thesis by simp
qed

end
